theory Spec2Isabelle
  imports Complex_Main "HOL-Library.AList"
begin

section \<open>Railway crossing control: data model\<close>

text \<open>
  The model follows \<^verbatim>\<open>src/api/server.py\<close>: the classes \<^verbatim>\<open>RailwayCrossing\<close> and
  \<^verbatim>\<open>RailwaySystem\<close> and the function \<^verbatim>\<open>background_task\<close>. Python objects become
  records that are passed in and returned updated. Three things the Python reads from its
  environment are made arguments: the wall clock (\<^verbatim>\<open>datetime.now()\<close>, in seconds, a
  rational), the random draws of the wear step, and the iterations of the endless
  scheduler loop. Python floats are modelled as exact rationals. The logging sink
  (\<^verbatim>\<open>SystemLogger\<close>) only appends to its own list and is left out.
\<close>

datatype CrossingState =
  IDLE | WARNING | COUNTDOWN | BARRIER_DOWN | TRAIN_PASSING | EMERGENCY | MAINTENANCE

datatype WeatherCondition = CLEAR | RAIN | FOG | STORM

datatype barrier_position = UP | DOWN

datatype alarm_mode = SILENT | SLOW_BEEP | FAST_BEEP | CONTINUOUS

text \<open>
  A value that arrives in the JSON parameters of a command and may be stored in the
  dynamically typed fields \<^verbatim>\<open>train_speed\<close> and \<^verbatim>\<open>train_distance\<close>.
\<close>

datatype pyval = PNone | PNum rat | PStr string

datatype py_error = TypeError | AttributeError

record Lights =
  red :: bool
  yellow :: bool
  green :: bool

record HistoryEntry =
  h_timestamp :: rat
  h_from :: CrossingState
  h_to :: CrossingState
  h_weather :: WeatherCondition

record RailwayCrossing =
  cid :: nat
  state :: CrossingState
  barrier :: barrier_position
  train_position :: rat
  train_speed :: pyval
  train_distance :: pyval
  weather :: WeatherCondition
  countdown :: int
  alarm :: alarm_mode
  traffic_lights :: Lights
  sensor_health :: "(string \<times> bool) list"
  faults :: "string list"
  state_history :: "HistoryEntry list"
  last_state_change :: rat
  operation_count :: nat
  component_health :: "(string \<times> int) list"

text \<open>
  The three random draws of one call of \<^verbatim>\<open>transition\<close>:
  \<^verbatim>\<open>random.random() < 0.1\<close>, the number behind \<^verbatim>\<open>random.choice\<close> and the number
  behind \<^verbatim>\<open>random.randint(1, 3)\<close>.
\<close>

record rnd =
  rnd_hit :: bool
  rnd_choice :: nat
  rnd_randint :: nat

definition init_crossing :: "rat \<Rightarrow> nat \<Rightarrow> RailwayCrossing" where
  "init_crossing now i =
     \<lparr> cid = i, state = IDLE, barrier = UP, train_position = - 100,
       train_speed = PNum 0, train_distance = PNum 0, weather = CLEAR, countdown = 10,
       alarm = SILENT,
       traffic_lights = \<lparr> red = False, yellow = False, green = True \<rparr>,
       sensor_health =
         [(''ir'', True), (''ultrasonic'', True), (''vibration'', True), (''rfid'', True)],
       faults = [], state_history = [], last_state_change = now, operation_count = 0,
       component_health =
         [(''barrier_motor'', 100), (''traffic_lights'', 100), (''alarm_system'', 100),
          (''sensors'', 100)] \<rparr>"

section \<open>The crossing state machine\<close>

fun weather_multipliers :: "WeatherCondition \<Rightarrow> rat" where
  "weather_multipliers CLEAR = 1"
| "weather_multipliers RAIN = 13 / 10"
| "weather_multipliers FOG = 3 / 2"
| "weather_multipliers STORM = 18 / 10"

text \<open>Python's \<^verbatim>\<open>int(x)\<close> on a float: truncation towards zero.\<close>

definition py_int :: "rat \<Rightarrow> int" where
  "py_int x = (if 0 \<le> x then \<lfloor>x\<rfloor> else \<lceil>x\<rceil>)"

definition get_adjusted_time :: "RailwayCrossing \<Rightarrow> int \<Rightarrow> int" where
  "get_adjusted_time c base_time = py_int (of_int base_time * weather_multipliers (weather c))"

fun valid_transitions :: "CrossingState \<Rightarrow> CrossingState list" where
  "valid_transitions IDLE = [WARNING, EMERGENCY, MAINTENANCE]"
| "valid_transitions WARNING = [COUNTDOWN, IDLE, EMERGENCY]"
| "valid_transitions COUNTDOWN = [BARRIER_DOWN, EMERGENCY]"
| "valid_transitions BARRIER_DOWN = [TRAIN_PASSING, EMERGENCY]"
| "valid_transitions TRAIN_PASSING = [IDLE, EMERGENCY]"
| "valid_transitions EMERGENCY = [IDLE]"
| "valid_transitions MAINTENANCE = [IDLE]"

definition update_outputs :: "RailwayCrossing \<Rightarrow> RailwayCrossing" where
  "update_outputs c =
     (case state c of
        IDLE \<Rightarrow>
          c\<lparr> barrier := UP,
             traffic_lights := \<lparr> red = False, yellow = False, green = True \<rparr>,
             alarm := SILENT, countdown := 10 \<rparr>
      | WARNING \<Rightarrow>
          c\<lparr> barrier := UP,
             traffic_lights := \<lparr> red = False, yellow = True, green = False \<rparr>,
             alarm := SLOW_BEEP, countdown := get_adjusted_time c 10 \<rparr>
      | COUNTDOWN \<Rightarrow>
          c\<lparr> barrier := UP,
             traffic_lights := \<lparr> red = True, yellow = False, green = False \<rparr>,
             alarm := FAST_BEEP \<rparr>
      | BARRIER_DOWN \<Rightarrow>
          c\<lparr> barrier := DOWN,
             traffic_lights := \<lparr> red = True, yellow = False, green = False \<rparr>,
             alarm := CONTINUOUS \<rparr>
      | TRAIN_PASSING \<Rightarrow>
          c\<lparr> barrier := DOWN,
             traffic_lights := \<lparr> red = True, yellow = False, green = False \<rparr>,
             alarm := SILENT \<rparr>
      | EMERGENCY \<Rightarrow>
          c\<lparr> barrier := UP,
             traffic_lights := \<lparr> red = True, yellow = True, green = False \<rparr>,
             alarm := CONTINUOUS, train_position := - 100 \<rparr>
      | MAINTENANCE \<Rightarrow>
          c\<lparr> barrier := UP,
             traffic_lights := \<lparr> red = False, yellow = False, green = False \<rparr>,
             alarm := SILENT \<rparr>)"

text \<open>
  The wear step at the end of \<^verbatim>\<open>transition\<close>. \<^verbatim>\<open>random.choice\<close> on an empty key
  list and a missing key raise inside the \<^verbatim>\<open>try\<close>, whose handler only logs: the
  crossing is then left as it is.
\<close>

definition degrade :: "rnd \<Rightarrow> RailwayCrossing \<Rightarrow> RailwayCrossing" where
  "degrade r c =
     (if rnd_hit r then
        (let keys = map fst (component_health c) in
         if keys = [] then c
         else
           (let component = keys ! (rnd_choice r mod length keys) in
            case map_of (component_health c) component of
              None \<Rightarrow> c
            | Some old_value \<Rightarrow>
                (let degradation = 1 + int (rnd_randint r mod 3) in
                 c\<lparr> component_health :=
                      AList.update component (max 50 (old_value - degradation))
                        (component_health c) \<rparr>)))
      else c)"

text \<open>Appending to \<^verbatim>\<open>state_history\<close>, which keeps its last ten entries.\<close>

definition record_history :: "HistoryEntry \<Rightarrow> HistoryEntry list \<Rightarrow> HistoryEntry list" where
  "record_history e h = (let h' = h @ [e] in if length h' > 10 then tl h' else h')"

definition transition :: "rat \<Rightarrow> rnd \<Rightarrow> CrossingState \<Rightarrow> RailwayCrossing \<Rightarrow> bool \<times> RailwayCrossing" where
  "transition now r new_state c =
     (if new_state \<notin> set (valid_transitions (state c)) then (False, c)
      else
        (let c1 = (if new_state = COUNTDOWN then c\<lparr> countdown := get_adjusted_time c 10 \<rparr>
                   else c);
             old_state = state c1;
             c2 = c1\<lparr> state := new_state, last_state_change := now \<rparr>;
             c3 = c2\<lparr> state_history :=
                       record_history
                         \<lparr> h_timestamp = now, h_from = old_state, h_to = new_state,
                           h_weather = weather c2 \<rparr>
                         (state_history c2) \<rparr>;
             c4 = update_outputs c3;
             c5 = c4\<lparr> operation_count := operation_count c4 + 1 \<rparr>
         in (True, degrade r c5)))"

text \<open>
  The result of \<^verbatim>\<open>calculate_arrival_time\<close>: \<^verbatim>\<open>float('inf')\<close> or a finite number
  of seconds.
\<close>

datatype arrival = Infinity | Seconds rat

fun arrival_gt :: "arrival \<Rightarrow> rat \<Rightarrow> bool" where
  "arrival_gt Infinity x = True"
| "arrival_gt (Seconds s) x = (s > x)"

text \<open>
  \<^verbatim>\<open>RailwayCrossing.calculate_arrival_time\<close>. Comparing \<^verbatim>\<open>None\<close> or a string with
  \<^verbatim>\<open>0\<close> raises \<^verbatim>\<open>TypeError\<close>; the \<^verbatim>\<open>or\<close> reads the distance only when the speed
  is positive.
\<close>

definition calculate_arrival_time :: "RailwayCrossing \<Rightarrow> py_error + arrival" where
  "calculate_arrival_time c =
     (case train_speed c of
        PNum speed \<Rightarrow>
          if speed \<le> 0 then Inr Infinity
          else
            (case train_distance c of
               PNum distance \<Rightarrow>
                 if distance \<le> 0 then Inr Infinity
                 else
                   (let speed_mps = speed * (1000 / 3600) in
                    if speed_mps \<le> 0 then Inr Infinity
                    else Inr (Seconds (distance / speed_mps)))
             | _ \<Rightarrow> Inl TypeError)
      | _ \<Rightarrow> Inl TypeError)"

text \<open>
  \<^verbatim>\<open>CrossingFSM.calculate_arrival_time\<close> of \<^verbatim>\<open>src/core/fsm.py\<close>, the second state
  machine of the repository, whose fields are floats: it has no guard on the distance.
\<close>

definition calculate_arrival_time_fsm :: "rat \<Rightarrow> rat \<Rightarrow> arrival" where
  "calculate_arrival_time_fsm speed distance =
     (if speed \<le> 0 then Infinity
      else
        (let speed_mps = speed * (1000 / 3600) in
         if speed_mps \<le> 0 then Infinity else Seconds (distance / speed_mps)))"

section \<open>The system: registry, global state, statistics\<close>

record GlobalState =
  emergency :: bool
  maintenance :: bool
  gs_weather :: WeatherCondition
  uptime :: nat
  system_health :: int
  total_trains :: nat

record Statistics =
  total_operations :: nat
  successful_transitions :: nat
  failed_transitions :: nat
  last_updated :: rat

record RailwaySystem =
  crossings :: "RailwayCrossing list"
  global_state :: GlobalState
  statistics :: Statistics

definition init_system :: "rat \<Rightarrow> RailwaySystem" where
  "init_system now =
     \<lparr> crossings = map (init_crossing now) [0, 1, 2, 3],
       global_state =
         \<lparr> emergency = False, maintenance = False, gs_weather = CLEAR, uptime = 0,
           system_health = 100, total_trains = 0 \<rparr>,
       statistics =
         \<lparr> total_operations = 0, successful_transitions = 0, failed_transitions = 0,
           last_updated = now \<rparr> \<rparr>"

definition can_advance_state :: "RailwayCrossing \<Rightarrow> py_error + bool" where
  "can_advance_state c =
     (if state c = EMERGENCY \<or> state c = MAINTENANCE then Inr False
      else if state c = COUNTDOWN \<and> countdown c > 0 then Inr False
      else if state c = WARNING then
        (case calculate_arrival_time c of
           Inl e \<Rightarrow> Inl e
         | Inr t \<Rightarrow> Inr (\<not> arrival_gt t 5))
      else Inr True)"

section \<open>The scheduler\<close>

text \<open>
  The body of the \<^verbatim>\<open>for crossing in system.crossings\<close> loop of
  \<^verbatim>\<open>background_task\<close>, in its two parts: moving the train, then the timed
  transitions. Dividing \<^verbatim>\<open>None\<close> or a string by 100 raises \<^verbatim>\<open>TypeError\<close>.
\<close>

definition move_train :: "RailwayCrossing \<Rightarrow> py_error + RailwayCrossing" where
  "move_train c =
     (if state c \<in> set [WARNING, COUNTDOWN, BARRIER_DOWN, TRAIN_PASSING]
         \<and> train_position c < 100 then
        (case train_speed c of
           PNum speed \<Rightarrow>
             (let speed_factor = speed / 100;
                  increment = max 2 (min 10 (5 * speed_factor))
              in Inr (c\<lparr> train_position := min 100 (train_position c + increment) \<rparr>))
         | _ \<Rightarrow> Inl TypeError)
      else Inr c)"

definition auto_advance :: "rat \<Rightarrow> rnd \<Rightarrow> RailwayCrossing \<Rightarrow> py_error + RailwayCrossing" where
  "auto_advance now r c =
     (let time_in_state = now - last_state_change c in
      if state c = WARNING then
        (if time_in_state \<ge> 3 then
           (case can_advance_state c of
              Inl e \<Rightarrow> Inl e
            | Inr ok \<Rightarrow> Inr (if ok then snd (transition now r COUNTDOWN c) else c))
         else Inr c)
      else if state c = COUNTDOWN \<and> countdown c > 0 then
        (let new_countdown = max 0 (get_adjusted_time c 10 - py_int time_in_state);
             c1 = c\<lparr> countdown := new_countdown \<rparr>
         in if countdown c1 = 0 then
              (case can_advance_state c1 of
                 Inl e \<Rightarrow> Inl e
               | Inr ok \<Rightarrow> Inr (if ok then snd (transition now r BARRIER_DOWN c1) else c1))
            else Inr c1)
      else if state c = BARRIER_DOWN then
        (if time_in_state \<ge> 2 then
           (case can_advance_state c of
              Inl e \<Rightarrow> Inl e
            | Inr ok \<Rightarrow> Inr (if ok then snd (transition now r TRAIN_PASSING c) else c))
         else Inr c)
      else if state c = TRAIN_PASSING \<and> train_position c \<ge> 100 then
        (if time_in_state \<ge> 3 then
           (case can_advance_state c of
              Inl e \<Rightarrow> Inl e
            | Inr ok \<Rightarrow>
                Inr (if ok then (snd (transition now r IDLE c))\<lparr> train_position := - 100 \<rparr>
                     else c))
         else Inr c)
      else Inr c)"

text \<open>
  One crossing in one tick. An exception leaves the crossing as far as it was updated
  and is reported, so that the loop over the crossings can stop there.
\<close>

definition tick_crossing :: "rat \<Rightarrow> rnd \<Rightarrow> RailwayCrossing \<Rightarrow> py_error option \<times> RailwayCrossing" where
  "tick_crossing now r c =
     (case move_train c of
        Inl e \<Rightarrow> (Some e, c)
      | Inr c1 \<Rightarrow>
          (case auto_advance now r c1 of
             Inl e \<Rightarrow> (Some e, c1)
           | Inr c2 \<Rightarrow> (None, c2)))"

text \<open>
  The loop over the crossings, in list order. The crossing at position \<open>i\<close> uses the
  random draws \<open>rs i\<close>. The \<^verbatim>\<open>try\<close> of \<^verbatim>\<open>background_task\<close> encloses the whole loop:
  the first exception ends it and the crossings after that one are not visited.
\<close>

fun tick_crossings :: "rat \<Rightarrow> (nat \<Rightarrow> rnd) \<Rightarrow> nat \<Rightarrow> RailwayCrossing list \<Rightarrow> py_error option \<times> RailwayCrossing list" where
  "tick_crossings now rs i [] = (None, [])"
| "tick_crossings now rs i (c # cs) =
     (case tick_crossing now (rs i) c of
        (Some e, c') \<Rightarrow> (Some e, c' # cs)
      | (None, c') \<Rightarrow>
          (case tick_crossings now rs (Suc i) cs of (err, cs') \<Rightarrow> (err, c' # cs')))"

definition faulty_sensors :: "RailwayCrossing \<Rightarrow> nat" where
  "faulty_sensors c = length (filter (\<lambda>(k, healthy). \<not> healthy) (sensor_health c))"

text \<open>One iteration of the \<^verbatim>\<open>while True\<close> loop of \<^verbatim>\<open>background_task\<close>.\<close>

definition background_tick :: "rat \<Rightarrow> (nat \<Rightarrow> rnd) \<Rightarrow> RailwaySystem \<Rightarrow> RailwaySystem" where
  "background_tick now rs sys =
     (let gs1 = (global_state sys)\<lparr> uptime := uptime (global_state sys) + 1 \<rparr> in
      case tick_crossings now rs 0 (crossings sys) of
        (Some e, cs) \<Rightarrow> sys\<lparr> crossings := cs, global_state := gs1 \<rparr>
      | (None, cs) \<Rightarrow>
          (let total_faults = sum_list (map (\<lambda>c. length (faults c)) cs);
               sensor_faults = sum_list (map faulty_sensors cs)
           in sys\<lparr> crossings := cs,
                   global_state :=
                     gs1\<lparr> system_health :=
                            max 0 (100 - (int total_faults * 5 + int sensor_faults * 3)) \<rparr> \<rparr>))"

text \<open>
  The loop itself never returns; a run of it is given by the list of its iterations,
  each with the time at which it runs and its random draws.
\<close>

fun background_task :: "(rat \<times> (nat \<Rightarrow> rnd)) list \<Rightarrow> RailwaySystem \<Rightarrow> RailwaySystem" where
  "background_task [] sys = sys"
| "background_task ((now, rs) # ticks) sys = background_task ticks (background_tick now rs sys)"

section \<open>The command processor\<close>

text \<open>
  The \<^verbatim>\<open>params\<close> argument of \<^verbatim>\<open>process_command\<close>: absent (\<^verbatim>\<open>None\<close>), a
  dictionary from strings to JSON values, or a value that is true in a condition and is
  not a dictionary (a non-empty JSON list or string, a number), which the HTTP route
  passes on as it comes.
\<close>

datatype params = NoParams | DictParams "(string \<times> pyval) list" | NotADict

datatype command_error =
  InvalidCrossingId int | UnknownCommand string | InternalFault py_error

record CommandResult =
  success :: bool
  new_state :: CrossingState
  state_description :: string
  next_action :: string

fun state_descriptions :: "CrossingState \<Rightarrow> string" where
  "state_descriptions IDLE = ''Crossing is clear and ready''"
| "state_descriptions WARNING = ''Train detected - warning activated''"
| "state_descriptions COUNTDOWN = ''Countdown to barrier closure''"
| "state_descriptions BARRIER_DOWN = ''Barriers lowered - road closed''"
| "state_descriptions TRAIN_PASSING = ''Train is passing through''"
| "state_descriptions EMERGENCY = ''EMERGENCY - Manual intervention required''"
| "state_descriptions MAINTENANCE = ''Maintenance in progress''"

fun next_actions :: "CrossingState \<Rightarrow> string" where
  "next_actions IDLE = ''Train detection''"
| "next_actions WARNING = ''Start countdown''"
| "next_actions COUNTDOWN = ''Lower barriers''"
| "next_actions BARRIER_DOWN = ''Train passage''"
| "next_actions TRAIN_PASSING = ''Raise barriers''"
| "next_actions EMERGENCY = ''Manual reset''"
| "next_actions MAINTENANCE = ''Complete maintenance''"

text \<open>
  \<^verbatim>\<open>str.upper\<close> on strings of 8-bit characters. The letters a to z are the only ones
  whose upper case occurs in the name of a weather condition.
\<close>

definition upper_char :: "char \<Rightarrow> char" where
  "upper_char ch =
     (let n = (of_char ch :: nat) in if 97 \<le> n \<and> n \<le> 122 then char_of (n - 32) else ch)"

definition upper :: "string \<Rightarrow> string" where
  "upper s = map upper_char s"

text \<open>\<^verbatim>\<open>WeatherCondition[name]\<close>: \<open>None\<close> stands for the \<^verbatim>\<open>KeyError\<close>.\<close>

definition weather_by_name :: "string \<Rightarrow> WeatherCondition option" where
  "weather_by_name name =
     (if name = ''CLEAR'' then Some CLEAR
      else if name = ''RAIN'' then Some RAIN
      else if name = ''FOG'' then Some FOG
      else if name = ''STORM'' then Some STORM
      else None)"

text \<open>\<^verbatim>\<open>d.get(key, default)\<close> on a dictionary given as an association list.\<close>

definition dict_get :: "(string \<times> 'a) list \<Rightarrow> string \<Rightarrow> 'a \<Rightarrow> 'a" where
  "dict_get d key dflt = (case map_of d key of Some v \<Rightarrow> v | None \<Rightarrow> dflt)"

text \<open>
  The parameter-setting step of the \<^verbatim>\<open>approach\<close> branch, from \<^verbatim>\<open>if params:\<close> to the
  end of the inner \<^verbatim>\<open>try\<close>. A weather value that is not a string has no \<^verbatim>\<open>upper\<close>,
  and an unknown name is a \<^verbatim>\<open>KeyError\<close>; the bare \<^verbatim>\<open>except\<close> catches both.
\<close>

definition approach_params :: "params \<Rightarrow> RailwayCrossing \<Rightarrow> GlobalState \<Rightarrow> RailwayCrossing \<times> GlobalState" where
  "approach_params ps c gs =
     (case ps of
        DictParams d \<Rightarrow>
          if d = [] then (c, gs)
          else
            (let c1 = c\<lparr> train_speed := dict_get d ''train_speed'' (PNum 60),
                         train_distance := dict_get d ''train_distance'' (PNum 200) \<rparr>
             in case map_of d ''weather'' of
                  None \<Rightarrow> (c1, gs)
                | Some (PStr s) \<Rightarrow>
                    (case weather_by_name (upper s) of
                       Some w \<Rightarrow> (c1\<lparr> weather := w \<rparr>, gs\<lparr> gs_weather := w \<rparr>)
                     | None \<Rightarrow> (c1\<lparr> weather := CLEAR \<rparr>, gs))
                | Some _ \<Rightarrow> (c1\<lparr> weather := CLEAR \<rparr>, gs))
      | _ \<Rightarrow> (c, gs))"

text \<open>
  The emergency branch calls \<^verbatim>\<open>transition\<close> on every crossing and drops the results.
\<close>

definition transition_all :: "rat \<Rightarrow> (nat \<Rightarrow> rnd) \<Rightarrow> CrossingState \<Rightarrow> RailwayCrossing list \<Rightarrow> RailwayCrossing list" where
  "transition_all now rs target cs =
     map (\<lambda>(j, c). snd (transition now (rs j) target c)) (enumerate 0 cs)"

definition inject_fault :: "params \<Rightarrow> RailwayCrossing \<Rightarrow> RailwayCrossing" where
  "inject_fault ps c =
     (let fault_type =
            (case ps of
               DictParams d \<Rightarrow>
                 if d = [] then PStr ''sensor_ir''
                 else dict_get d ''fault_type'' (PStr ''sensor_ir'')
             | _ \<Rightarrow> PStr ''sensor_ir'')
      in if fault_type = PStr ''sensor_ir'' then
           c\<lparr> sensor_health := AList.update ''ir'' False (sensor_health c),
              faults := faults c @ [''IR_SENSOR_FAULT''] \<rparr>
         else if fault_type = PStr ''sensor_vib'' then
           c\<lparr> sensor_health := AList.update ''vibration'' False (sensor_health c),
              faults := faults c @ [''VIBRATION_SENSOR_FAULT''] \<rparr>
         else if fault_type = PStr ''barrier_stuck'' then
           c\<lparr> faults := faults c @ [''BARRIER_STUCK''] \<rparr>
         else c)"

definition clear_faults :: "RailwayCrossing \<Rightarrow> RailwayCrossing" where
  "clear_faults c =
     c\<lparr> sensor_health := [(''ir'', True), (''vibration'', True), (''rfid'', True)],
        faults := [] \<rparr>"

text \<open>
  The \<^verbatim>\<open>if\<close>/\<^verbatim>\<open>elif\<close> chain on the command name, for the crossing at position \<open>i\<close>.
  The result is the \<^verbatim>\<open>success\<close> flag and the updated system, or \<open>None\<close> in the final
  \<^verbatim>\<open>else\<close>, which returns at once.
\<close>

definition run_command :: "rat \<Rightarrow> (nat \<Rightarrow> rnd) \<Rightarrow> nat \<Rightarrow> string \<Rightarrow> params \<Rightarrow> RailwaySystem \<Rightarrow> (bool \<times> RailwaySystem) option" where
  "run_command now rs i command ps sys =
     (let crossing = crossings sys ! i; gs = global_state sys in
      if command = ''approach'' then
        (case approach_params ps crossing gs of
           (c1, gs1) \<Rightarrow>
             (case transition now (rs i) WARNING c1 of
                (ok, c2) \<Rightarrow>
                  Some (ok, sys\<lparr> crossings :=
                                   (crossings sys)
                                     [i := (if ok then c2\<lparr> train_position := 0 \<rparr> else c2)],
                                 global_state := gs1 \<rparr>)))
      else if command = ''countdown'' then
        (case transition now (rs i) COUNTDOWN crossing of
           (ok, c1) \<Rightarrow> Some (ok, sys\<lparr> crossings := (crossings sys)[i := c1] \<rparr>))
      else if command = ''barrier_down'' then
        (case transition now (rs i) BARRIER_DOWN crossing of
           (ok, c1) \<Rightarrow> Some (ok, sys\<lparr> crossings := (crossings sys)[i := c1] \<rparr>))
      else if command = ''train_pass'' then
        (case transition now (rs i) TRAIN_PASSING crossing of
           (ok, c1) \<Rightarrow>
             Some (ok,
               if ok then
                 sys\<lparr> crossings := (crossings sys)[i := c1\<lparr> train_position := 100 \<rparr>],
                      global_state := gs\<lparr> total_trains := total_trains gs + 1 \<rparr> \<rparr>
               else sys\<lparr> crossings := (crossings sys)[i := c1] \<rparr>))
      else if command = ''reset'' then
        (case transition now (rs i) IDLE crossing of
           (ok, c1) \<Rightarrow>
             Some (ok,
               sys\<lparr> crossings :=
                      (crossings sys)
                        [i := (if ok then
                                 c1\<lparr> train_position := - 100, train_speed := PNum 0,
                                     train_distance := PNum 0 \<rparr>
                               else c1)] \<rparr>))
      else if command = ''emergency'' then
        (let gs1 = gs\<lparr> emergency := \<not> emergency gs \<rparr> in
         Some (True,
           sys\<lparr> crossings :=
                  transition_all now rs (if emergency gs1 then EMERGENCY else IDLE)
                    (crossings sys),
                global_state := gs1 \<rparr>))
      else if command = ''maintenance'' then
        (case transition now (rs i) MAINTENANCE crossing of
           (ok, c1) \<Rightarrow>
             Some (ok,
               if ok then
                 sys\<lparr> crossings := (crossings sys)[i := c1],
                      global_state := gs\<lparr> maintenance := True \<rparr> \<rparr>
               else sys\<lparr> crossings := (crossings sys)[i := c1] \<rparr>))
      else if command = ''inject_fault'' then
        Some (True, sys\<lparr> crossings := (crossings sys)[i := inject_fault ps crossing] \<rparr>)
      else if command = ''clear_faults'' then
        Some (True, sys\<lparr> crossings := (crossings sys)[i := clear_faults crossing] \<rparr>)
      else None)"

text \<open>
  \<^verbatim>\<open>RailwaySystem.process_command\<close>. A \<^verbatim>\<open>params\<close> value that is true and has no
  \<^verbatim>\<open>items\<close> raises \<^verbatim>\<open>AttributeError\<close> in the first statement of the \<^verbatim>\<open>try\<close>,
  before anything is written; the handler returns the failure.
\<close>

definition process_command :: "rat \<Rightarrow> (nat \<Rightarrow> rnd) \<Rightarrow> int \<Rightarrow> string \<Rightarrow> params \<Rightarrow> RailwaySystem \<Rightarrow> (command_error + CommandResult) \<times> RailwaySystem" where
  "process_command now rs crossing_id command ps sys =
     (if crossing_id < 0 \<or> crossing_id \<ge> int (length (crossings sys)) then
        (Inl (InvalidCrossingId crossing_id), sys)
      else if ps = NotADict then (Inl (InternalFault AttributeError), sys)
      else
        (let i = nat crossing_id in
         case run_command now rs i command ps sys of
           None \<Rightarrow> (Inl (UnknownCommand command), sys)
         | Some (ok, sys1) \<Rightarrow>
             (let st = statistics sys1;
                  st1 = (if ok then
                           st\<lparr> successful_transitions := successful_transitions st + 1 \<rparr>
                         else st\<lparr> failed_transitions := failed_transitions st + 1 \<rparr>);
                  st2 = st1\<lparr> total_operations := total_operations st1 + 1,
                             last_updated := now \<rparr>;
                  crossing = crossings sys1 ! i
              in (Inr \<lparr> success = ok, new_state = state crossing,
                         state_description = state_descriptions (state crossing),
                         next_action = next_actions (state crossing) \<rparr>,
                  sys1\<lparr> statistics := st2 \<rparr>))))"

section \<open>Runs and invariants\<close>

text \<open>A sequence of calls of \<^verbatim>\<open>transition\<close> on one crossing, successful or not.\<close>

fun run_transitions :: "(rat \<times> rnd \<times> CrossingState) list \<Rightarrow> RailwayCrossing \<Rightarrow> RailwayCrossing" where
  "run_transitions [] c = c"
| "run_transitions ((now, r, target) # ts) c =
     run_transitions ts (snd (transition now r target c))"

definition health_ok :: "RailwayCrossing \<Rightarrow> bool" where
  "health_ok c \<longleftrightarrow> (\<forall>k v. map_of (component_health c) k = Some v \<longrightarrow> 50 \<le> v)"

text \<open>The barrier is down only in the states BARRIER_DOWN and TRAIN_PASSING.\<close>

definition barrier_ok :: "RailwayCrossing \<Rightarrow> bool" where
  "barrier_ok c \<longleftrightarrow> (barrier c = DOWN \<longrightarrow> state c \<in> {BARRIER_DOWN, TRAIN_PASSING})"

section \<open>Frame properties of the state machine\<close>

lemma degrade_frame [simp]:
  "cid (degrade r c) = cid c"
  "state (degrade r c) = state c"
  "barrier (degrade r c) = barrier c"
  "train_position (degrade r c) = train_position c"
  "train_speed (degrade r c) = train_speed c"
  "train_distance (degrade r c) = train_distance c"
  "weather (degrade r c) = weather c"
  "countdown (degrade r c) = countdown c"
  "alarm (degrade r c) = alarm c"
  "traffic_lights (degrade r c) = traffic_lights c"
  "sensor_health (degrade r c) = sensor_health c"
  "faults (degrade r c) = faults c"
  "state_history (degrade r c) = state_history c"
  "last_state_change (degrade r c) = last_state_change c"
  "operation_count (degrade r c) = operation_count c"
  by (simp_all add: degrade_def Let_def split: option.splits)

lemma update_outputs_frame [simp]:
  "cid (update_outputs c) = cid c"
  "state (update_outputs c) = state c"
  "train_speed (update_outputs c) = train_speed c"
  "train_distance (update_outputs c) = train_distance c"
  "weather (update_outputs c) = weather c"
  "sensor_health (update_outputs c) = sensor_health c"
  "faults (update_outputs c) = faults c"
  "state_history (update_outputs c) = state_history c"
  "last_state_change (update_outputs c) = last_state_change c"
  "operation_count (update_outputs c) = operation_count c"
  "component_health (update_outputs c) = component_health c"
  by (simp_all add: update_outputs_def split: CrossingState.splits)

lemma barrier_update_outputs:
  "barrier (update_outputs c) = (if state c \<in> {BARRIER_DOWN, TRAIN_PASSING} then DOWN else UP)"
  by (simp add: update_outputs_def split: CrossingState.splits)

lemma countdown_update_outputs:
  "countdown (update_outputs c) =
     (if state c = IDLE then 10 else if state c = WARNING then get_adjusted_time c 10
      else countdown c)"
  by (simp add: update_outputs_def split: CrossingState.splits)

lemma train_position_update_outputs:
  "train_position (update_outputs c) = (if state c = EMERGENCY then - 100 else train_position c)"
  by (simp add: update_outputs_def split: CrossingState.splits)

lemma transition_fail:
  "target \<notin> set (valid_transitions (state c)) \<Longrightarrow> transition now r target c = (False, c)"
  by (simp add: transition_def)

lemma fst_transition:
  "fst (transition now r target c) \<longleftrightarrow> target \<in> set (valid_transitions (state c))"
  by (simp add: transition_def Let_def)

lemma transition_ok_fields:
  assumes "target \<in> set (valid_transitions (state c))"
  shows "state (snd (transition now r target c)) = target"
    and "barrier (snd (transition now r target c)) =
           (if target \<in> {BARRIER_DOWN, TRAIN_PASSING} then DOWN else UP)"
    and "train_position (snd (transition now r target c)) =
           (if target = EMERGENCY then - 100 else train_position c)"
    and "countdown (snd (transition now r target c)) =
           (if target = IDLE then 10
            else if target = WARNING \<or> target = COUNTDOWN then get_adjusted_time c 10
            else countdown c)"
    and "last_state_change (snd (transition now r target c)) = now"
  using assms
  by (simp_all add: transition_def Let_def barrier_update_outputs countdown_update_outputs
      train_position_update_outputs get_adjusted_time_def)

lemma transition_frame [simp]:
  "cid (snd (transition now r target c)) = cid c"
  "train_speed (snd (transition now r target c)) = train_speed c"
  "train_distance (snd (transition now r target c)) = train_distance c"
  "weather (snd (transition now r target c)) = weather c"
  "sensor_health (snd (transition now r target c)) = sensor_health c"
  "faults (snd (transition now r target c)) = faults c"
  by (simp_all add: transition_def Let_def)

section \<open>The transition table\<close>

text \<open>
  C1. For every crossing and every target state, \<^verbatim>\<open>transition\<close> reports success exactly
  when the target is in the allowed set of the current state, the seven rows of the table
  being written out here; when it reports failure, the crossing it returns is the crossing
  it was given, so the state, the countdown and the history are as before.
\<close>

theorem C1_transition_table:
  "(fst (transition now r target c) \<longleftrightarrow>
      target \<in> (case state c of
                  IDLE \<Rightarrow> {WARNING, EMERGENCY, MAINTENANCE}
                | WARNING \<Rightarrow> {COUNTDOWN, IDLE, EMERGENCY}
                | COUNTDOWN \<Rightarrow> {BARRIER_DOWN, EMERGENCY}
                | BARRIER_DOWN \<Rightarrow> {TRAIN_PASSING, EMERGENCY}
                | TRAIN_PASSING \<Rightarrow> {IDLE, EMERGENCY}
                | EMERGENCY \<Rightarrow> {IDLE}
                | MAINTENANCE \<Rightarrow> {IDLE}))
   \<and> (\<not> fst (transition now r target c) \<longrightarrow>
        state (snd (transition now r target c)) = state c
        \<and> countdown (snd (transition now r target c)) = countdown c
        \<and> state_history (snd (transition now r target c)) = state_history c
        \<and> snd (transition now r target c) = c)"
proof (intro conjI impI)
  show "fst (transition now r target c) \<longleftrightarrow>
      target \<in> (case state c of
                  IDLE \<Rightarrow> {WARNING, EMERGENCY, MAINTENANCE}
                | WARNING \<Rightarrow> {COUNTDOWN, IDLE, EMERGENCY}
                | COUNTDOWN \<Rightarrow> {BARRIER_DOWN, EMERGENCY}
                | BARRIER_DOWN \<Rightarrow> {TRAIN_PASSING, EMERGENCY}
                | TRAIN_PASSING \<Rightarrow> {IDLE, EMERGENCY}
                | EMERGENCY \<Rightarrow> {IDLE}
                | MAINTENANCE \<Rightarrow> {IDLE})"
    unfolding fst_transition by (cases "state c") auto
next
  assume "\<not> fst (transition now r target c)"
  then have "transition now r target c = (False, c)"
    by (simp add: fst_transition transition_fail)
  then show "state (snd (transition now r target c)) = state c"
    "countdown (snd (transition now r target c)) = countdown c"
    "state_history (snd (transition now r target c)) = state_history c"
    "snd (transition now r target c) = c"
    by simp_all
qed

theorem C1_transition_table_witness:
  "\<not> fst (transition 5 \<lparr> rnd_hit = True, rnd_choice = 0, rnd_randint = 0 \<rparr> BARRIER_DOWN
           (init_crossing 0 0))
   \<and> snd (transition 5 \<lparr> rnd_hit = True, rnd_choice = 0, rnd_randint = 0 \<rparr> BARRIER_DOWN
           (init_crossing 0 0)) = init_crossing 0 0"
  using C1_transition_table
    [of 5 "\<lparr> rnd_hit = True, rnd_choice = 0, rnd_randint = 0 \<rparr>" BARRIER_DOWN "init_crossing 0 0"]
  by (simp add: init_crossing_def)

section \<open>Weather-adjusted countdown\<close>

lemma get_adjusted_time_10:
  "get_adjusted_time c 10 =
     (case weather c of CLEAR \<Rightarrow> 10 | RAIN \<Rightarrow> 13 | FOG \<Rightarrow> 15 | STORM \<Rightarrow> 18)"
  by (cases "weather c") (simp_all add: get_adjusted_time_def py_int_def)

lemma round_multiplier_10:
  "round (10 * weather_multipliers w) =
     (case w of CLEAR \<Rightarrow> 10 | RAIN \<Rightarrow> 13 | FOG \<Rightarrow> 15 | STORM \<Rightarrow> 18)"
  by (cases w) simp_all

text \<open>
  C5. A successful transition into COUNTDOWN leaves the countdown at
  \<open>round (10 * multiplier)\<close> of the crossing's weather: 18 under STORM and 10 under
  CLEAR. The code truncates (\<^verbatim>\<open>int\<close>) where the claim rounds; for the base time 10 the
  four products are whole numbers, so the two agree. (In IEEE double arithmetic the
  products \<^verbatim>\<open>10 * 1.0\<close>, \<^verbatim>\<open>10 * 1.3\<close>, \<^verbatim>\<open>10 * 1.5\<close> and \<^verbatim>\<open>10 * 1.8\<close> are exactly
  10.0, 13.0, 15.0 and 18.0, as in the rational model.)
\<close>

theorem C5_countdown_on_entry:
  assumes "fst (transition now r COUNTDOWN c)"
  shows "countdown (snd (transition now r COUNTDOWN c)) = round (10 * weather_multipliers (weather c))
         \<and> (weather c = STORM \<longrightarrow> countdown (snd (transition now r COUNTDOWN c)) = 18)
         \<and> (weather c = CLEAR \<longrightarrow> countdown (snd (transition now r COUNTDOWN c)) = 10)"
proof -
  from assms have ok: "COUNTDOWN \<in> set (valid_transitions (state c))"
    by (simp add: fst_transition)
  have "countdown (snd (transition now r COUNTDOWN c)) = get_adjusted_time c 10"
    using transition_ok_fields(4) [OF ok] by simp
  then show ?thesis
    by (cases "weather c") (simp_all add: get_adjusted_time_10 round_multiplier_10)
qed

theorem C5_countdown_on_entry_witness:
  "fst (transition 3 \<lparr> rnd_hit = False, rnd_choice = 0, rnd_randint = 0 \<rparr> COUNTDOWN
          ((init_crossing 0 0) \<lparr> state := WARNING, weather := STORM \<rparr>))
   \<and> countdown (snd (transition 3 \<lparr> rnd_hit = False, rnd_choice = 0, rnd_randint = 0 \<rparr> COUNTDOWN
          ((init_crossing 0 0) \<lparr> state := WARNING, weather := STORM \<rparr>))) = 18"
  using C5_countdown_on_entry [of 3 "\<lparr> rnd_hit = False, rnd_choice = 0, rnd_randint = 0 \<rparr>"
      "(init_crossing 0 0) \<lparr> state := WARNING, weather := STORM \<rparr>"]
  by (simp add: fst_transition init_crossing_def)

section \<open>Arrival time\<close>

text \<open>
  C6. With a numeric speed and distance, \<^verbatim>\<open>RailwayCrossing.calculate_arrival_time\<close>
  returns infinity when the speed or the distance is not positive, and otherwise the
  distance divided by the speed in metres per second; 100 km/h and 500 m give 18 seconds.
\<close>

theorem C6_arrival_time:
  assumes "train_speed c = PNum speed" and "train_distance c = PNum distance"
  shows "calculate_arrival_time c =
           Inr (if speed \<le> 0 \<or> distance \<le> 0 then Infinity
                else Seconds (distance / (speed * (1000 / 3600))))
         \<and> (speed = 100 \<and> distance = 500 \<longrightarrow> calculate_arrival_time c = Inr (Seconds 18))"
proof -
  have pos: "0 < speed \<Longrightarrow> \<not> speed * (1000 / 3600) \<le> 0"
    by (simp add: zero_less_mult_iff not_le)
  have gen: "calculate_arrival_time c =
           Inr (if speed \<le> 0 \<or> distance \<le> 0 then Infinity
                else Seconds (distance / (speed * (1000 / 3600))))"
    using assms pos by (auto simp add: calculate_arrival_time_def Let_def)
  then show ?thesis by simp
qed

theorem C6_arrival_time_witness:
  "calculate_arrival_time
     ((init_crossing 0 0) \<lparr> train_speed := PNum 100, train_distance := PNum 500 \<rparr>)
     = Inr (Seconds 18)
   \<and> calculate_arrival_time
       ((init_crossing 0 0) \<lparr> train_speed := PNum 0, train_distance := PNum 500 \<rparr>)
     = Inr Infinity"
  using C6_arrival_time
      [of "(init_crossing 0 0) \<lparr> train_speed := PNum 100, train_distance := PNum 500 \<rparr>" 100 500]
    C6_arrival_time
      [of "(init_crossing 0 0) \<lparr> train_speed := PNum 0, train_distance := PNum 500 \<rparr>" 0 500]
  by simp

text \<open>
  The variant in \<^verbatim>\<open>src/core/fsm.py\<close> differs: with a positive speed and the distance 0
  it returns 0 seconds, not infinity.
\<close>

lemma calculate_arrival_time_fsm_zero_distance:
  "calculate_arrival_time_fsm 100 0 = Seconds 0"
  by (simp add: calculate_arrival_time_fsm_def)

section \<open>Clearing faults\<close>

lemma clear_faults_idem: "clear_faults (clear_faults c) = clear_faults c"
  by (simp add: clear_faults_def)

text \<open>
  C7. The claim has all four sensors (ir, ultrasonic, vibration, rfid) mapped to healthy
  after \<^verbatim>\<open>clear_faults\<close>. The command is idempotent and empties the fault list, but the
  dictionary it writes has three keys: on a fresh system, where \<^verbatim>\<open>ultrasonic\<close> is mapped
  to \<^verbatim>\<open>True\<close>, the command leaves \<^verbatim>\<open>sensor_health\<close> without the key \<^verbatim>\<open>ultrasonic\<close>.
\<close>

theorem C7_clear_faults_ultrasonic:
  "faults (crossings (snd (process_command 1
      (\<lambda>i. \<lparr> rnd_hit = False, rnd_choice = 0, rnd_randint = 0 \<rparr>)
      0 ''clear_faults'' NoParams (init_system 0))) ! 0) = []
   \<and> map_of (sensor_health (crossings (init_system 0) ! 0)) ''ultrasonic'' = Some True
   \<and> map_of (sensor_health (crossings (snd (process_command 1
      (\<lambda>i. \<lparr> rnd_hit = False, rnd_choice = 0, rnd_randint = 0 \<rparr>)
      0 ''clear_faults'' NoParams (init_system 0))) ! 0)) ''ultrasonic'' = None
   \<and> map fst (sensor_health (crossings (snd (process_command 1
      (\<lambda>i. \<lparr> rnd_hit = False, rnd_choice = 0, rnd_randint = 0 \<rparr>)
      0 ''clear_faults'' NoParams (init_system 0))) ! 0)) = [''ir'', ''vibration'', ''rfid'']"
  by (simp add: process_command_def run_command_def clear_faults_def init_system_def
      init_crossing_def)

section \<open>The approach command\<close>

lemma approach_crossing:
  assumes "0 \<le> crossing_id" and "crossing_id < int (length (crossings sys))"
    and "ps \<noteq> NotADict"
  shows "train_speed (crossings (snd (process_command now rs crossing_id ''approach'' ps sys)) ! nat crossing_id)
           = train_speed (fst (approach_params ps (crossings sys ! nat crossing_id) (global_state sys)))"
    and "train_distance (crossings (snd (process_command now rs crossing_id ''approach'' ps sys)) ! nat crossing_id)
           = train_distance (fst (approach_params ps (crossings sys ! nat crossing_id) (global_state sys)))"
    and "weather (crossings (snd (process_command now rs crossing_id ''approach'' ps sys)) ! nat crossing_id)
           = weather (fst (approach_params ps (crossings sys ! nat crossing_id) (global_state sys)))"
proof -
  from assms have i: "nat crossing_id < length (crossings sys)" by linarith
  from assms have nr: "\<not> (crossing_id < 0 \<or> int (length (crossings sys)) \<le> crossing_id)"
    by linarith
  show "train_speed (crossings (snd (process_command now rs crossing_id ''approach'' ps sys)) ! nat crossing_id)
           = train_speed (fst (approach_params ps (crossings sys ! nat crossing_id) (global_state sys)))"
    using i nr assms(3)
    by (simp add: process_command_def run_command_def Let_def split_beta)
  show "train_distance (crossings (snd (process_command now rs crossing_id ''approach'' ps sys)) ! nat crossing_id)
           = train_distance (fst (approach_params ps (crossings sys ! nat crossing_id) (global_state sys)))"
    using i nr assms(3)
    by (simp add: process_command_def run_command_def Let_def split_beta)
  show "weather (crossings (snd (process_command now rs crossing_id ''approach'' ps sys)) ! nat crossing_id)
           = weather (fst (approach_params ps (crossings sys ! nat crossing_id) (global_state sys)))"
    using i nr assms(3)
    by (simp add: process_command_def run_command_def Let_def split_beta)
qed

lemma approach_params_absent:
  "ps = NoParams \<or> ps = DictParams [] \<Longrightarrow> approach_params ps c gs = (c, gs)"
  by (auto simp add: approach_params_def)

lemma approach_params_speed_distance:
  "d \<noteq> [] \<Longrightarrow>
   train_speed (fst (approach_params (DictParams d) c gs)) =
     (case map_of d ''train_speed'' of Some v \<Rightarrow> v | None \<Rightarrow> PNum 60)
   \<and> train_distance (fst (approach_params (DictParams d) c gs)) =
     (case map_of d ''train_distance'' of Some v \<Rightarrow> v | None \<Rightarrow> PNum 200)"
  by (simp add: approach_params_def dict_get_def Let_def split: option.splits pyval.splits)

lemma approach_params_weather_fallback:
  assumes "d \<noteq> []" and "map_of d ''weather'' = Some v"
    and "\<And>s. v = PStr s \<Longrightarrow> weather_by_name (upper s) = None"
  shows "weather (fst (approach_params (DictParams d) c gs)) = CLEAR"
  using assms
  by (cases v) (simp_all add: approach_params_def Let_def)

lemma weather_by_name_None:
  "weather_by_name n = None \<longleftrightarrow> n \<notin> {''CLEAR'', ''RAIN'', ''FOG'', ''STORM''}"
  by (simp add: weather_by_name_def)

text \<open>
  C10. For the \<^verbatim>\<open>approach\<close> command on a valid crossing id: with the parameters absent
  or an empty dictionary the parameter-setting step changes nothing, and the command
  leaves the crossing's speed and distance as they were; with a non-empty dictionary the
  speed and the distance are the values under \<^verbatim>\<open>train_speed\<close> and \<^verbatim>\<open>train_distance\<close>,
  or 60 and 200 where a key is missing; and a weather value that is not (after
  \<^verbatim>\<open>upper\<close>) the name of a weather condition, or not a string, gives CLEAR.
\<close>

theorem C10_approach_params:
  assumes "0 \<le> crossing_id" and "crossing_id < int (length (crossings sys))"
  shows
    "(ps = NoParams \<or> ps = DictParams [] \<longrightarrow>
        approach_params ps (crossings sys ! nat crossing_id) (global_state sys)
          = (crossings sys ! nat crossing_id, global_state sys)
        \<and> train_speed (crossings (snd (process_command now rs crossing_id ''approach'' ps sys))
            ! nat crossing_id) = train_speed (crossings sys ! nat crossing_id)
        \<and> train_distance (crossings (snd (process_command now rs crossing_id ''approach'' ps sys))
            ! nat crossing_id) = train_distance (crossings sys ! nat crossing_id))
     \<and> (ps = DictParams d \<and> d \<noteq> [] \<longrightarrow>
        train_speed (crossings (snd (process_command now rs crossing_id ''approach'' ps sys))
            ! nat crossing_id)
          = (case map_of d ''train_speed'' of Some v \<Rightarrow> v | None \<Rightarrow> PNum 60)
        \<and> train_distance (crossings (snd (process_command now rs crossing_id ''approach'' ps sys))
            ! nat crossing_id)
          = (case map_of d ''train_distance'' of Some v \<Rightarrow> v | None \<Rightarrow> PNum 200))
     \<and> (ps = DictParams d \<and> d \<noteq> [] \<and> map_of d ''weather'' = Some w
          \<and> (\<forall>s. w = PStr s \<longrightarrow> upper s \<notin> {''CLEAR'', ''RAIN'', ''FOG'', ''STORM''}) \<longrightarrow>
        weather (crossings (snd (process_command now rs crossing_id ''approach'' ps sys))
            ! nat crossing_id) = CLEAR)"
proof (intro conjI impI)
  assume a: "ps = NoParams \<or> ps = DictParams []"
  then have n: "ps \<noteq> NotADict" by auto
  show "approach_params ps (crossings sys ! nat crossing_id) (global_state sys)
          = (crossings sys ! nat crossing_id, global_state sys)"
    using a by (rule approach_params_absent)
  show "train_speed (crossings (snd (process_command now rs crossing_id ''approach'' ps sys))
            ! nat crossing_id) = train_speed (crossings sys ! nat crossing_id)"
    using approach_crossing(1) [OF assms n] approach_params_absent [OF a] by simp
  show "train_distance (crossings (snd (process_command now rs crossing_id ''approach'' ps sys))
            ! nat crossing_id) = train_distance (crossings sys ! nat crossing_id)"
    using approach_crossing(2) [OF assms n] approach_params_absent [OF a] by simp
next
  assume a: "ps = DictParams d \<and> d \<noteq> []"
  then have n: "ps \<noteq> NotADict" by auto
  show "train_speed (crossings (snd (process_command now rs crossing_id ''approach'' ps sys))
            ! nat crossing_id)
          = (case map_of d ''train_speed'' of Some v \<Rightarrow> v | None \<Rightarrow> PNum 60)"
    using approach_crossing(1) [OF assms n] approach_params_speed_distance a by simp
  show "train_distance (crossings (snd (process_command now rs crossing_id ''approach'' ps sys))
            ! nat crossing_id)
          = (case map_of d ''train_distance'' of Some v \<Rightarrow> v | None \<Rightarrow> PNum 200)"
    using approach_crossing(2) [OF assms n] approach_params_speed_distance a by simp
next
  assume a: "ps = DictParams d \<and> d \<noteq> [] \<and> map_of d ''weather'' = Some w
          \<and> (\<forall>s. w = PStr s \<longrightarrow> upper s \<notin> {''CLEAR'', ''RAIN'', ''FOG'', ''STORM''})"
  then have n: "ps \<noteq> NotADict" by auto
  from a have "weather (fst (approach_params (DictParams d) (crossings sys ! nat crossing_id)
      (global_state sys))) = CLEAR"
    by (intro approach_params_weather_fallback) (auto simp: weather_by_name_None)
  then show "weather (crossings (snd (process_command now rs crossing_id ''approach'' ps sys))
            ! nat crossing_id) = CLEAR"
    using approach_crossing(3) [OF assms n] a by simp
qed

lemma upper_snow: "upper ''snow'' = ''SNOW''"
  by code_simp

theorem C10_approach_params_witness:
  "train_speed (crossings (snd (process_command 1
       (\<lambda>i. \<lparr> rnd_hit = False, rnd_choice = 0, rnd_randint = 0 \<rparr>) 0 ''approach'' NoParams
       (init_system 0))) ! nat 0) = PNum 0
   \<and> train_speed (crossings (snd (process_command 1
       (\<lambda>i. \<lparr> rnd_hit = False, rnd_choice = 0, rnd_randint = 0 \<rparr>) 2 ''approach''
       (DictParams [(''train_speed'', PNum 90), (''weather'', PStr ''snow'')])
       (init_system 0))) ! nat 2) = PNum 90
   \<and> train_distance (crossings (snd (process_command 1
       (\<lambda>i. \<lparr> rnd_hit = False, rnd_choice = 0, rnd_randint = 0 \<rparr>) 2 ''approach''
       (DictParams [(''train_speed'', PNum 90), (''weather'', PStr ''snow'')])
       (init_system 0))) ! nat 2) = PNum 200
   \<and> weather (crossings (snd (process_command 1
       (\<lambda>i. \<lparr> rnd_hit = False, rnd_choice = 0, rnd_randint = 0 \<rparr>) 2 ''approach''
       (DictParams [(''train_speed'', PNum 90), (''weather'', PStr ''snow'')])
       (init_system 0))) ! nat 2) = CLEAR"
  using C10_approach_params [of 0 "init_system 0" NoParams 1
      "\<lambda>i. \<lparr> rnd_hit = False, rnd_choice = 0, rnd_randint = 0 \<rparr>" "[]" PNone]
    C10_approach_params [of 2 "init_system 0"
      "DictParams [(''train_speed'', PNum 90), (''weather'', PStr ''snow'')]" 1
      "\<lambda>i. \<lparr> rnd_hit = False, rnd_choice = 0, rnd_randint = 0 \<rparr>"
      "[(''train_speed'', PNum 90), (''weather'', PStr ''snow'')]" "PStr ''snow''"]
  by (simp add: init_system_def init_crossing_def upper_snow)

end
